theory Spec2Isabelle
  imports Main
begin

section \<open>Text\<close>

text \<open>
  Python text is modelled as \<^typ>\<open>string\<close>, one \<^typ>\<open>char\<close> per code point, so the
  model covers text whose code points are below 256 (ASCII and Latin-1). On that range the
  whitespace of \<^verbatim>\<open>str.strip()\<close> is 9..13, 28..32, 133 and 160, and the only decimal
  digits of the regular expression class \<^verbatim>\<open>\d\<close> are \<^verbatim>\<open>0\<close>..\<^verbatim>\<open>9\<close>.
\<close>

definition py_isspace :: "char \<Rightarrow> bool" where
  "py_isspace ch =
     (let n = (of_char ch :: nat)
      in (9 \<le> n \<and> n \<le> 13) \<or> (28 \<le> n \<and> n \<le> 32) \<or> n = 133 \<or> n = 160)"

text \<open>\<^verbatim>\<open>s.strip()\<close>: leading and trailing whitespace removed.\<close>

definition strip :: "string \<Rightarrow> string" where
  "strip s = rev (dropWhile py_isspace (rev (dropWhile py_isspace s)))"

text \<open>
  \<^verbatim>\<open>s.replace(old, '')\<close>: the occurrences of \<open>old\<close> are found from left to right, without
  overlap, and removed; the result is not scanned again. With an empty \<open>old\<close> Python
  inserts the empty replacement between the characters, which leaves \<open>s\<close> as it is.
\<close>

function replace_by_empty :: "string \<Rightarrow> string \<Rightarrow> string" where
  "replace_by_empty old [] = []"
| "replace_by_empty old (c # cs) =
     (if old \<noteq> [] \<and> take (length old) (c # cs) = old
      then replace_by_empty old (drop (length old) (c # cs))
      else c # replace_by_empty old cs)"
  by pat_completeness auto
termination
  by (relation "measure (\<lambda>(old, s). length s)") (auto simp: neq_Nil_conv)

section \<open>Listings and ad cards\<close>

text \<open>
  A row of the category table
  \<^verbatim>\<open>(type_item TEXT, price TEXT, address TEXT, image_link TEXT)\<close>. The first three values
  the program binds are always text; the fourth is what \<^verbatim>\<open>Tag.get('src')\<close> returns, which
  is \<^verbatim>\<open>None\<close> (stored as NULL) when the attribute is absent.
\<close>

record listing =
  type_item :: string
  price :: string
  address :: string
  image_link :: "string option"

type_synonym table = "listing list"

text \<open>
  One element of \<^verbatim>\<open>soup.find_all('div', 'col s6 m4 l3')\<close>, given by what the four lookups
  of the loop body find in it:
  \<^item> \<open>card_description\<close>: the \<^verbatim>\<open>.text\<close> of \<^verbatim>\<open>find('p', 'ad__card-description')\<close>,
    \<open>None\<close> when \<^verbatim>\<open>find\<close> returns \<^verbatim>\<open>None\<close>;
  \<^item> \<open>card_price\<close>: the same for \<^verbatim>\<open>find('p', 'ad__card-price')\<close>;
  \<^item> \<open>card_location\<close>: \<open>None\<close> when \<^verbatim>\<open>find('p', 'ad__card-location')\<close> returns
    \<^verbatim>\<open>None\<close>, \<open>Some None\<close> when the element has no \<^verbatim>\<open>span\<close> descendant, else the
    \<^verbatim>\<open>.text\<close> of its first \<^verbatim>\<open>span\<close>;
  \<^item> \<open>card_img\<close>: \<open>None\<close> when \<^verbatim>\<open>find('img', 'ad__card-img')\<close> returns \<^verbatim>\<open>None\<close>,
    \<open>Some None\<close> when the element has no \<^verbatim>\<open>src\<close> attribute, else the attribute.
\<close>

record container =
  card_description :: "string option"
  card_price :: "string option"
  card_location :: "string option option"
  card_img :: "string option option"

text \<open>
  Lines 157 to 160. An attribute access on \<^verbatim>\<open>None\<close> raises \<^verbatim>\<open>AttributeError\<close>, which is
  the result \<open>None\<close> here; \<^verbatim>\<open>.get('src')\<close> never raises.
\<close>

definition extract_listing :: "container \<Rightarrow> listing option" where
  "extract_listing container =
     (case card_description container of
        None \<Rightarrow> None
      | Some t_text \<Rightarrow>
          (case card_price container of
             None \<Rightarrow> None
           | Some p_text \<Rightarrow>
               (case card_location container of
                  None \<Rightarrow> None
                | Some None \<Rightarrow> None
                | Some (Some a_text) \<Rightarrow>
                    (case card_img container of
                       None \<Rightarrow> None
                     | Some i \<Rightarrow>
                         Some \<lparr>type_item = strip t_text,
                               price = replace_by_empty '' '' (replace_by_empty ''CFA'' p_text),
                               address = strip a_text,
                               image_link = i\<rparr>))))"

section \<open>The environment of a scrape session\<close>

text \<open>
  How a failed statement leaves the open SQLite transaction: SQLite undoes the statement
  alone and keeps the transaction (as for \<^verbatim>\<open>SQLITE_BUSY\<close>), or rolls the whole
  transaction back (as it may for \<^verbatim>\<open>SQLITE_FULL\<close> and \<^verbatim>\<open>SQLITE_IOERR\<close>).
\<close>

datatype failure = Keeps_transaction | Rolls_back

text \<open>
  Everything a session of one category meets and does not decide:
  \<^item> \<open>connect_fails\<close>: \<^verbatim>\<open>sqlite3.connect\<close> raises;
  \<^item> \<open>create_fails\<close>: the \<^verbatim>\<open>CREATE TABLE IF NOT EXISTS\<close> statement raises;
  \<^item> \<open>fetch index\<close>: \<open>None\<close> when \<^verbatim>\<open>get\<close>, the parser or \<^verbatim>\<open>find_all\<close> raises for page
    \<open>index\<close>, else the containers \<^verbatim>\<open>find_all\<close> returns;
  \<^item> \<open>insert_result index k\<close>: \<open>None\<close> when the \<^verbatim>\<open>INSERT\<close> for the container at position
    \<open>k\<close> (from 0) of page \<open>index\<close> succeeds, else how it fails;
  \<^item> \<open>commit_result index\<close>: the same for \<^verbatim>\<open>conn.commit()\<close> after page \<open>index\<close>;
  \<^item> \<open>read_fails\<close>: \<^verbatim>\<open>pd.read_sql_query\<close> raises.

  \<^verbatim>\<open>conn.close()\<close>, \<^verbatim>\<open>df.to_csv\<close> and the calls of the progress bar are taken to
  succeed; the progress bar is not part of the model.
\<close>

record world =
  connect_fails :: bool
  create_fails :: bool
  fetch :: "int \<Rightarrow> container list option"
  insert_result :: "int \<Rightarrow> nat \<Rightarrow> failure option"
  commit_result :: "int \<Rightarrow> failure option"
  read_fails :: bool

text \<open>
  What is on disk: the committed rows of the category's table (no row when the table does
  not exist yet) and the delimited files, a file being given by the table written to it.
\<close>

record disk =
  stored :: table
  files :: "string \<rightharpoonup> table"

text \<open>
  The loop's state: the committed rows, the rows of the open transaction, and the page
  indices for which a GET has been issued, oldest first.
\<close>

record session =
  committed :: table
  pending :: table
  gets :: "int list"

datatype error = Connect_error | Schema_error | Read_error

datatype connection = Never_opened | Left_open | Closed

text \<open>
  How a session ends: the exception that leaves \<^verbatim>\<open>scrape_data\<close> or the data frame it
  returns, the GETs issued, the connection, and the disk.
\<close>

record outcome =
  result :: "error + table"
  fetched :: "int list"
  conn :: connection
  after :: disk

section \<open>The scrape session\<close>

text \<open>
  Lines 155 to 162, the containers of one page from position \<open>k\<close> on: a container whose
  lookups fail, or whose \<^verbatim>\<open>INSERT\<close> raises, is passed over by \<^verbatim>\<open>except: pass\<close>.
\<close>

fun insert_containers :: "world \<Rightarrow> int \<Rightarrow> nat \<Rightarrow> container list \<Rightarrow> table \<Rightarrow> table" where
  "insert_containers w index k [] rows = rows"
| "insert_containers w index k (container # containers) rows =
     insert_containers w index (Suc k) containers
       (case extract_listing container of
          None \<Rightarrow> rows
        | Some r \<Rightarrow>
            (case insert_result w index k of
               None \<Rightarrow> rows @ [r]
             | Some Keeps_transaction \<Rightarrow> rows
             | Some Rolls_back \<Rightarrow> []))"

text \<open>Line 163.\<close>

definition commit :: "world \<Rightarrow> int \<Rightarrow> session \<Rightarrow> session" where
  "commit w index s =
     (case commit_result w index of
        None \<Rightarrow> s\<lparr>committed := committed s @ pending s, pending := []\<rparr>
      | Some Keeps_transaction \<Rightarrow> s
      | Some Rolls_back \<Rightarrow> s\<lparr>pending := []\<rparr>)"

text \<open>
  Lines 151 to 164, one turn of the loop: when the fetch raises, the outer
  \<^verbatim>\<open>except: pass\<close> skips the containers and the commit.
\<close>

definition scrape_page :: "world \<Rightarrow> int \<Rightarrow> session \<Rightarrow> session" where
  "scrape_page w index s =
     (let s1 = s\<lparr>gets := gets s @ [index]\<rparr>
      in case fetch w index of
           None \<Rightarrow> s1
         | Some containers \<Rightarrow>
             commit w index (s1\<lparr>pending := insert_containers w index 0 containers (pending s1)\<rparr>))"

text \<open>Line 146.\<close>

definition actual_pages :: "int \<Rightarrow> int \<Rightarrow> int" where
  "actual_pages user_pages max_limit = min user_pages max_limit"

text \<open>Lines 146 to 165: \<^verbatim>\<open>for index in range(1, actual_pages + 1)\<close>.\<close>

definition scrape_pages :: "world \<Rightarrow> table \<Rightarrow> int \<Rightarrow> int \<Rightarrow> session" where
  "scrape_pages w tab user_pages max_limit =
     fold (scrape_page w) [1..actual_pages user_pages max_limit]
       \<lparr>committed = tab, pending = [], gets = []\<rparr>"

text \<open>
  \<^verbatim>\<open>DataFrame.drop_duplicates()\<close>: a row equal in every column to an earlier row is
  dropped, the others keep their order.
\<close>

fun drop_duplicates_from :: "'a list \<Rightarrow> 'a list \<Rightarrow> 'a list" where
  "drop_duplicates_from seen [] = []"
| "drop_duplicates_from seen (x # xs) =
     (if x \<in> set seen then drop_duplicates_from seen xs
      else x # drop_duplicates_from (x # seen) xs)"

definition drop_duplicates :: "'a list \<Rightarrow> 'a list" where
  "drop_duplicates xs = drop_duplicates_from [] xs"

text \<open>
  Lines 171 to 174: the data frame returned and the files left, from the data frame read.
\<close>

definition export_csv :: "(string \<rightharpoonup> table) \<Rightarrow> string \<Rightarrow> table \<Rightarrow> table \<times> (string \<rightharpoonup> table)" where
  "export_csv fs csv_name df =
     (if df \<noteq> [] then (drop_duplicates df, fs(csv_name \<mapsto> drop_duplicates df))
      else (df, fs))"

text \<open>
  Line 167: the \<^verbatim>\<open>SELECT\<close> runs on the session's own connection, so it reads the
  committed rows and those of the open transaction.
\<close>

definition table_read :: "world \<Rightarrow> disk \<Rightarrow> int \<Rightarrow> int \<Rightarrow> table" where
  "table_read w d user_pages max_limit =
     (let s = scrape_pages w (stored d) user_pages max_limit in committed s @ pending s)"

text \<open>
  \<^verbatim>\<open>scrape_data\<close> for one category: the URL, the table and the database are fixed by the
  world and the disk. An exception of \<^verbatim>\<open>CREATE TABLE\<close> or of the final read leaves the
  function before \<^verbatim>\<open>conn.close()\<close>; closing the connection drops the open transaction.
\<close>

definition scrape_data :: "world \<Rightarrow> disk \<Rightarrow> string \<Rightarrow> int \<Rightarrow> int \<Rightarrow> outcome" where
  "scrape_data w d csv_name user_pages max_limit =
     (if connect_fails w then
        \<lparr>result = Inl Connect_error, fetched = [], conn = Never_opened, after = d\<rparr>
      else if create_fails w then
        \<lparr>result = Inl Schema_error, fetched = [], conn = Left_open, after = d\<rparr>
      else
        let s = scrape_pages w (stored d) user_pages max_limit
        in if read_fails w then
             \<lparr>result = Inl Read_error, fetched = gets s, conn = Left_open,
              after = d\<lparr>stored := committed s\<rparr>\<rparr>
           else
             let (df, fs) = export_csv (files d) csv_name (table_read w d user_pages max_limit)
             in \<lparr>result = Inr df, fetched = gets s, conn = Closed,
                 after = \<lparr>stored = committed s, files = fs\<rparr>\<rparr>)"

text \<open>
  The rows \<^verbatim>\<open>drop_duplicates\<close> keeps, in the words of its contract: the rows that do not
  occur at an earlier position, in their order.
\<close>

definition first_occurrences :: "'a list \<Rightarrow> 'a list" where
  "first_occurrences xs =
     map (\<lambda>i. xs ! i) (filter (\<lambda>i. xs ! i \<notin> set (take i xs)) [0..<length xs])"

section \<open>The dashboard reader\<close>

text \<open>
  A cell of a data frame is a missing value (NaN), a text, an integer held as an integer
  (in an \<^verbatim>\<open>int64\<close> column, or a Python \<^verbatim>\<open>int\<close> in an \<^verbatim>\<open>object\<close> column), or a \<^verbatim>\<open>float64\<close>
  value other than NaN, which is given by the text \<^verbatim>\<open>str\<close> renders it as
  (\<^verbatim>\<open>12500.0\<close>, \<^verbatim>\<open>0.5\<close>, \<^verbatim>\<open>1e+16\<close>). So a numeric column that \<^verbatim>\<open>read_csv\<close> read with an
  empty cell in it, which is a \<^verbatim>\<open>float64\<close> column, has \<open>Float\<close> and \<open>Missing\<close> cells. A
  data frame has its column names in order and its rows, a row giving the cell of each
  column.
\<close>

datatype cell = Missing | Text string | Whole int | Float string

record data_frame =
  columns :: "string list"
  frame_rows :: "(string \<Rightarrow> cell) list"

text \<open>\<^verbatim>\<open>str.lower()\<close> on code points below 256.\<close>

definition lower_char :: "char \<Rightarrow> char" where
  "lower_char ch =
     (let n = (of_char ch :: nat)
      in if (65 \<le> n \<and> n \<le> 90) \<or> (192 \<le> n \<and> n \<le> 222 \<and> n \<noteq> 215)
         then char_of (n + 32) else ch)"

definition lower :: "string \<Rightarrow> string" where
  "lower s = map lower_char s"

text \<open>\<^verbatim>\<open>sub in s\<close> for two texts.\<close>

fun py_in :: "string \<Rightarrow> string \<Rightarrow> bool" where
  "py_in sub [] = (sub = [])"
| "py_in sub (c # cs) = (take (length sub) (c # cs) = sub \<or> py_in sub cs)"

definition possible_addr :: "string list" where
  "possible_addr = [''address'', ''location'', ''ville'', ''lieu'', ''adresse'', ''region'']"

definition possible_names :: "string list" where
  "possible_names =
     [''type_item'', ''type_clothes'', ''type_shoes'', ''name'', ''description'', ''titre'']"

text \<open>Lines 87 to 91, on a frame that has a column.\<close>

definition price_col :: "data_frame \<Rightarrow> string option" where
  "price_col df =
     find (\<lambda>c. py_in ''price'' (lower c) \<or> py_in ''prix'' (lower c)) (columns df)"

definition address_col :: "data_frame \<Rightarrow> string option" where
  "address_col df = find (\<lambda>c. strip (lower c) \<in> set possible_addr) (columns df)"

definition item_col :: "data_frame \<Rightarrow> string" where
  "item_col df =
     (case find (\<lambda>c. strip (lower c) \<in> set possible_names) (columns df) of
        Some c \<Rightarrow> c
      | None \<Rightarrow> (case columns df of c # _ \<Rightarrow> c | [] \<Rightarrow> []))"

text \<open>
  \<^verbatim>\<open>str(n)\<close> for a whole number, and \<^verbatim>\<open>astype(str)\<close> on a cell.
\<close>

fun decimal :: "nat \<Rightarrow> string" where
  "decimal n =
     (if n < 10 then [char_of (48 + n)]
      else decimal (n div 10) @ [char_of (48 + n mod 10)])"

definition astype_str :: "cell \<Rightarrow> string" where
  "astype_str c =
     (case c of
        Missing \<Rightarrow> ''nan''
      | Text s \<Rightarrow> s
      | Whole n \<Rightarrow> (if n < 0 then ''-'' else []) @ decimal (nat \<bar>n\<bar>)
      | Float t \<Rightarrow> t)"

definition is_digit :: "char \<Rightarrow> bool" where
  "is_digit ch = (let n = (of_char ch :: nat) in 48 \<le> n \<and> n \<le> 57)"

text \<open>\<^verbatim>\<open>.str.replace(r'[^\d]', '', regex=True)\<close>.\<close>

definition strip_non_digits :: "string \<Rightarrow> string" where
  "strip_non_digits s = filter is_digit s"

text \<open>
  What \<^verbatim>\<open>pd.to_numeric(..., errors='coerce')\<close> makes of one text: NaN, a number that
  pandas holds exactly whatever the column's type, or a number from \<open>2 ^ 53\<close> on, which
  pandas holds exactly in an integer column and rounded in a \<^verbatim>\<open>float64\<close> column, so that
  its value is not given here.
\<close>

datatype coerced = NaN | Exact int | Inexact

text \<open>
  \<^verbatim>\<open>pd.to_numeric(..., errors='coerce')\<close> on a text of digits, which is all the reader
  passes to it: the empty text is NaN, any other its value in base ten.
\<close>

definition to_numeric :: "string \<Rightarrow> coerced" where
  "to_numeric s =
     (if s = [] \<or> \<not> list_all is_digit s then NaN
      else let n = foldl (\<lambda>n ch. 10 * n + (int (of_char ch) - 48)) 0 s
           in if n < 2 ^ 53 then Exact n else Inexact)"

text \<open>Lines 95 to 98 for one cell of the price column.\<close>

definition clean_price :: "cell \<Rightarrow> coerced" where
  "clean_price c = to_numeric (strip_non_digits (astype_str c))"

text \<open>
  The numbers among coerced values, and where the reader's arithmetic on them is exact:
  no value is from \<open>2 ^ 53\<close> on, and the sum of the numbers plus their count is at most
  \<open>2 ^ 53\<close>. Then every partial sum is a whole number that \<^verbatim>\<open>float64\<close> holds, and the
  quotient of the sum by the count, rounded to \<^verbatim>\<open>float64\<close>, has the whole part of the
  exact quotient.
\<close>

fun exact_values :: "coerced list \<Rightarrow> int list" where
  "exact_values [] = []"
| "exact_values (Exact n # cs) = n # exact_values cs"
| "exact_values (c # cs) = exact_values cs"

definition float64_exact :: "coerced list \<Rightarrow> bool" where
  "float64_exact cs =
     (Inexact \<notin> set cs
      \<and> sum_list (exact_values cs) + int (length (exact_values cs)) \<le> 2 ^ 53)"

text \<open>
  Line 95: the column \<^verbatim>\<open>clean_price\<close> is written into the frame itself, as a new last
  column or over a column of that name. Its numbers are written as \<open>Whole\<close> cells,
  whichever numeric type pandas gives the column; nothing renders them as text later.
  The reader's model stops before, on a frame with a value that is \<open>Inexact\<close>.
\<close>

definition assign_clean_price :: "string \<Rightarrow> data_frame \<Rightarrow> data_frame" where
  "assign_clean_price pc df =
     \<lparr>columns = (if ''clean_price'' \<in> set (columns df) then columns df
                  else columns df @ [''clean_price'']),
      frame_rows =
        map (\<lambda>r. r(''clean_price'' :=
                     (case clean_price (r pc) of Exact n \<Rightarrow> Whole n | _ \<Rightarrow> Missing)))
          (frame_rows df)\<rparr>"

text \<open>Line 99: \<^verbatim>\<open>df.dropna(subset=['clean_price'])\<close>.\<close>

definition dropna_clean_price :: "data_frame \<Rightarrow> data_frame" where
  "dropna_clean_price df =
     df\<lparr>frame_rows := filter (\<lambda>r. r ''clean_price'' \<noteq> Missing) (frame_rows df)\<rparr>"

text \<open>The numbers of a column, and the cells \<^verbatim>\<open>value_counts()\<close> counts (it drops NaN).\<close>

fun numbers :: "cell list \<Rightarrow> int list" where
  "numbers [] = []"
| "numbers (Whole n # cs) = n # numbers cs"
| "numbers (c # cs) = numbers cs"

definition counted :: "cell list \<Rightarrow> cell list" where
  "counted cs = filter (\<lambda>c. c \<noteq> Missing) cs"

definition column :: "data_frame \<Rightarrow> string \<Rightarrow> cell list" where
  "column df c = map (\<lambda>r. r c) (frame_rows df)"

text \<open>
  What the reader shows: the three metrics (the price metrics only when shown), the
  columns whose ten most frequent values the two bar charts show (\<open>None\<close> for the note
  that no address column was found), and the prices of the histogram (\<open>None\<close> for the
  note that there is no valid price). The order \<^verbatim>\<open>value_counts()\<close> gives to equal counts
  is pandas's own, so a chart is given by the cells counted. The mean is cut to a whole
  number as \<^verbatim>\<open>int\<close> does.
\<close>

record dashboard =
  total_items :: nat
  avg_price :: "int option"
  max_price :: "int option"
  top_locations :: "cell list option"
  top_items :: "cell list"
  price_distribution :: "int list option"

text \<open>
  How a call of the reader ends: with the warning that there is no data, with a dashboard,
  or on a frame whose prices are beyond the exact range of \<^verbatim>\<open>float64\<close>, where what the
  metrics show depends on pandas's rounding and is not given.
\<close>

datatype reading = No_data | Beyond_float64 | Shown dashboard

text \<open>
  \<^verbatim>\<open>plot_category_stats_lite\<close>: the early return is on an empty frame (no column or no
  row).
\<close>

definition plot_category_stats_lite :: "data_frame \<Rightarrow> reading" where
  "plot_category_stats_lite df0 =
     (if columns df0 = [] \<or> frame_rows df0 = [] then No_data
      else if (case price_col df0 of
                 None \<Rightarrow> False
               | Some pc \<Rightarrow> \<not> float64_exact (map clean_price (column df0 pc)))
      then Beyond_float64
      else
        let df = (case price_col df0 of None \<Rightarrow> df0 | Some pc \<Rightarrow> assign_clean_price pc df0);
            df_clean = (case price_col df0 of None \<Rightarrow> df | Some pc \<Rightarrow> dropna_clean_price df);
            prices = numbers (column df_clean ''clean_price'');
            shown = (price_col df0 \<noteq> None \<and> frame_rows df_clean \<noteq> [])
        in Shown
             \<lparr>total_items = length (frame_rows df),
              avg_price = (if shown then Some (sum_list prices div int (length prices)) else None),
              max_price = (if shown then Some (Max (set prices)) else None),
              top_locations =
                (case address_col df0 of
                   None \<Rightarrow> None
                 | Some ac \<Rightarrow> Some (counted (column df ac))),
              top_items = counted (column df (item_col df0)),
              price_distribution = (if shown then Some prices else None)\<rparr>)"

section \<open>Example sessions\<close>

text \<open>A session in which nothing fails and every page is empty, and two ad cards.\<close>

definition quiet :: world where
  "quiet =
     \<lparr>connect_fails = False, create_fails = False, fetch = (\<lambda>index. Some []),
      insert_result = (\<lambda>index k. None), commit_result = (\<lambda>index. None),
      read_fails = False\<rparr>"

definition empty_disk :: disk where
  "empty_disk = \<lparr>stored = [], files = Map.empty\<rparr>"

definition shirt :: container where
  "shirt =
     \<lparr>card_description = Some ''Chemise'', card_price = Some ''12 500 CFA'',
      card_location = Some (Some ''Dakar''), card_img = Some (Some ''a.jpg'')\<rparr>"

definition boots :: container where
  "boots =
     \<lparr>card_description = Some ''Bottes'', card_price = Some ''20 000 CFA'',
      card_location = Some (Some ''Thies''), card_img = Some (Some ''b.jpg'')\<rparr>"

definition shirt_row :: listing where
  "shirt_row =
     \<lparr>type_item = ''Chemise'', price = ''12500'', address = ''Dakar'',
      image_link = Some ''a.jpg''\<rparr>"

definition boots_row :: listing where
  "boots_row =
     \<lparr>type_item = ''Bottes'', price = ''20000'', address = ''Thies'',
      image_link = Some ''b.jpg''\<rparr>"

text \<open>Cards that lack the price element, lack the \<^verbatim>\<open>src\<close> attribute, or wrap the price in newlines.\<close>

definition no_price :: container where
  "no_price = shirt\<lparr>card_price := None\<rparr>"

definition no_src :: container where
  "no_src = shirt\<lparr>card_img := Some None\<rparr>"

definition wrapped_price :: container where
  "wrapped_price = shirt\<lparr>card_price := Some (CHR 0x0A # ''12 500 CFA'' @ [CHR 0x0A])\<rparr>"

text \<open>The site with the given first two pages (\<open>None\<close>: the fetch raises), the others empty.\<close>

definition site :: "container list option \<Rightarrow> container list option \<Rightarrow> world" where
  "site p1 p2 =
     quiet\<lparr>fetch := (\<lambda>index. if index = 1 then p1 else if index = 2 then p2 else Some [])\<rparr>"

text \<open>Every \<^verbatim>\<open>INSERT\<close> of page 1 raises.\<close>

definition first_insert_down :: world where
  "first_insert_down =
     (site (Some [shirt]) (Some [boots]))
       \<lparr>insert_result := (\<lambda>index k. if index = 1 then Some Keeps_transaction else None)\<rparr>"

text \<open>Page 1 cannot be fetched, every \<^verbatim>\<open>INSERT\<close> and every commit raises.\<close>

definition rough :: world where
  "rough =
     (site None (Some [shirt]))
       \<lparr>insert_result := (\<lambda>index k. Some Rolls_back),
        commit_result := (\<lambda>index. Some Keeps_transaction)\<rparr>"

text \<open>An empty table beside an export file of an earlier session.\<close>

definition stale_disk :: disk where
  "stale_disk = \<lparr>stored = [], files = [''children_shoes_clean_data.csv'' \<mapsto> [boots_row]]\<rparr>"



text \<open>
  A file whose prices are a number and an empty cell, read back: a \<^verbatim>\<open>float64\<close> column.
  And a file with a price of 17 digits.
\<close>

definition float_prices :: data_frame where
  "float_prices =
     \<lparr>columns = [''price''],
      frame_rows = [(\<lambda>c. Float ''12500.0''), (\<lambda>c. Missing)]\<rparr>"

definition long_price :: data_frame where
  "long_price =
     \<lparr>columns = [''price''], frame_rows = [(\<lambda>c. Text ''90071992547409930 CFA'')]\<rparr>"

definition recleaned :: data_frame where
  "recleaned =
     \<lparr>columns = [''clean_price''],
      frame_rows = [(\<lambda>c. Text ''12500''), (\<lambda>c. Text ''sur demande'')]\<rparr>"

section \<open>Facts about the text functions and the de-duplication\<close>

lemma upto_from_1: "[1..numeral n] = 1 # [2..numeral n]"
  by (simp add: upto.simps [of 1])

lemma replace_by_empty_single: "replace_by_empty [x] s = filter (\<lambda>ch. ch \<noteq> x) s"
  by (induction s) auto

lemma set_drop_duplicates_from: "set (drop_duplicates_from seen xs) = set xs - set seen"
  by (induction xs arbitrary: seen) auto

lemma distinct_drop_duplicates_from: "distinct (drop_duplicates_from seen xs)"
  by (induction xs arbitrary: seen) (auto simp: set_drop_duplicates_from)

lemma drop_duplicates_from_distinct:
  "distinct xs \<Longrightarrow> set xs \<inter> set seen = {} \<Longrightarrow> drop_duplicates_from seen xs = xs"
  by (induction xs arbitrary: seen) auto

lemma set_drop_duplicates: "set (drop_duplicates xs) = set xs"
  by (simp add: drop_duplicates_def set_drop_duplicates_from)

lemma distinct_drop_duplicates: "distinct (drop_duplicates xs)"
  by (simp add: drop_duplicates_def distinct_drop_duplicates_from)

lemma drop_duplicates_idem: "drop_duplicates (drop_duplicates xs) = drop_duplicates xs"
  unfolding drop_duplicates_def
  by (rule drop_duplicates_from_distinct) (simp_all add: distinct_drop_duplicates_from)

lemma drop_duplicates_Nil_iff: "drop_duplicates xs = [] \<longleftrightarrow> xs = []"
  using set_drop_duplicates [of xs] by (metis set_empty)

text \<open>The recursion keeps exactly the rows at the positions of first occurrence.\<close>

lemma drop_duplicates_from_nth:
  "drop_duplicates_from seen xs
     = map (\<lambda>i. xs ! i) (filter (\<lambda>i. xs ! i \<notin> set seen \<union> set (take i xs)) [0..<length xs])"
proof (induction xs arbitrary: seen)
  case Nil
  then show ?case by simp
next
  case (Cons x xs)
  let ?P = "\<lambda>i. (x # xs) ! i \<notin> set seen \<union> set (take i (x # xs))"
  have upt: "[0..<length (x # xs)] = 0 # map Suc [0..<length xs]"
    by (simp add: upt_conv_Cons map_Suc_upt del: upt_Suc)
  have shift: "map (\<lambda>i. (x # xs) ! i) (filter ?P (map Suc [0..<length xs]))
      = map (\<lambda>i. xs ! i)
          (filter (\<lambda>i. xs ! i \<notin> set seen \<union> set (x # take i xs)) [0..<length xs])"
  proof -
    have "filter ?P (map Suc [0..<length xs])
        = map Suc (filter (\<lambda>i. xs ! i \<notin> set seen \<union> set (x # take i xs)) [0..<length xs])"
      unfolding filter_map comp_def
      by (intro arg_cong [where f = "map Suc"] filter_cong) auto
    then show ?thesis by (simp add: comp_def)
  qed
  show ?case
  proof (cases "x \<in> set seen")
    case True
    have "filter (\<lambda>i. xs ! i \<notin> set seen \<union> set (x # take i xs)) [0..<length xs]
        = filter (\<lambda>i. xs ! i \<notin> set seen \<union> set (take i xs)) [0..<length xs]"
      using True by (intro filter_cong) auto
    with True shift show ?thesis
      unfolding upt by (simp add: Cons.IH)
  next
    case False
    have "filter (\<lambda>i. xs ! i \<notin> set seen \<union> set (x # take i xs)) [0..<length xs]
        = filter (\<lambda>i. xs ! i \<notin> set (x # seen) \<union> set (take i xs)) [0..<length xs]"
      by (intro filter_cong) auto
    with False shift show ?thesis
      unfolding upt by (simp add: Cons.IH)
  qed
qed

lemma drop_duplicates_first_occurrences: "drop_duplicates xs = first_occurrences xs"
  by (simp add: drop_duplicates_def first_occurrences_def drop_duplicates_from_nth)

section \<open>Facts about the loop\<close>

lemma gets_commit: "gets (commit w index s) = gets s"
  by (simp add: commit_def split: option.split failure.split)

lemma gets_scrape_page: "gets (scrape_page w index s) = gets s @ [index]"
  by (simp add: scrape_page_def Let_def gets_commit split: option.split)

lemma gets_fold_scrape_page: "gets (fold (scrape_page w) pages s) = gets s @ pages"
  by (induction pages arbitrary: s) (simp_all add: gets_scrape_page)

lemma gets_scrape_pages:
  "gets (scrape_pages w tab user_pages max_limit) = [1..min user_pages max_limit]"
  by (simp add: scrape_pages_def actual_pages_def gets_fold_scrape_page)

lemma insert_containers_append:
  "insert_containers w index k (xs @ ys) rows
     = insert_containers w index (k + length xs) ys (insert_containers w index k xs rows)"
  by (induction xs arbitrary: k rows) simp_all

lemma insert_containers_all_inserted:
  "(\<forall>i<length cs. insert_result w index (k + i) = None) \<Longrightarrow>
   insert_containers w index k cs rows = rows @ List.map_filter extract_listing cs"
proof (induction cs arbitrary: k rows)
  case Nil
  then show ?case by (simp add: List.map_filter_simps)
next
  case (Cons c cs)
  from Cons.prems have first: "insert_result w index k = None"
    by force
  from Cons.prems have "\<forall>i<length cs. insert_result w index (Suc k + i) = None"
    by force
  then have "insert_containers w index (Suc k) cs rows'
      = rows' @ List.map_filter extract_listing cs" for rows'
    by (rule Cons.IH)
  with first show ?case
    by (simp add: List.map_filter_simps split: option.split)
qed

lemma scrape_page_failed_fetch:
  "fetch w index = None \<Longrightarrow> scrape_page w index s = s\<lparr>gets := gets s @ [index]\<rparr>"
  by (simp add: scrape_page_def)

lemma committed_scrape_page_committed:
  "fetch w index = Some cs \<Longrightarrow> commit_result w index = None \<Longrightarrow>
   committed (scrape_page w index s)
     = committed s @ insert_containers w index 0 cs (pending s)"
  by (simp add: scrape_page_def commit_def)

text \<open>Committed rows stay: a page only ever appends to them.\<close>

lemma committed_scrape_page_grows:
  "\<exists>rows. committed (scrape_page w index s) = committed s @ rows"
  by (simp add: scrape_page_def commit_def Let_def split: option.split failure.split)

lemma committed_fold_grows:
  "\<exists>rows. committed (fold (scrape_page w) pages s) = committed s @ rows"
proof (induction pages arbitrary: s)
  case Nil
  then show ?case by simp
next
  case (Cons index pages)
  obtain r1 where "committed (scrape_page w index s) = committed s @ r1"
    using committed_scrape_page_grows by blast
  moreover obtain r2 where "committed (fold (scrape_page w) pages (scrape_page w index s))
      = committed (scrape_page w index s) @ r2"
    using Cons.IH by blast
  ultimately show ?case by simp
qed

text \<open>
  A page that is fetched, whose inserts all succeed and whose commit succeeds has its
  rows among the committed rows when the loop ends.
\<close>

lemma page_rows_committed:
  assumes "1 \<le> j" and "j \<le> actual_pages user_pages max_limit"
    and "fetch w j = Some cs" and "\<forall>i<length cs. insert_result w j i = None"
    and "commit_result w j = None"
  shows "set (List.map_filter extract_listing cs)
           \<subseteq> set (committed (scrape_pages w tab user_pages max_limit))"
proof -
  let ?n = "actual_pages user_pages max_limit"
  let ?s0 = "\<lparr>committed = tab, pending = [], gets = []\<rparr>"
  let ?s1 = "fold (scrape_page w) [1..j - 1] ?s0"
  let ?s2 = "scrape_page w j ?s1"
  have split: "[1..?n] = [1..j - 1] @ j # [j + 1..?n]"
    using assms(1,2) by (rule upto_split3)
  have run: "scrape_pages w tab user_pages max_limit = fold (scrape_page w) [j + 1..?n] ?s2"
    by (simp add: scrape_pages_def split)
  have "insert_containers w j 0 cs (pending ?s1)
      = pending ?s1 @ List.map_filter extract_listing cs"
    using assms(4) by (intro insert_containers_all_inserted) simp
  then have "committed ?s2 = committed ?s1 @ pending ?s1 @ List.map_filter extract_listing cs"
    using assms(3,5) by (simp add: committed_scrape_page_committed)
  moreover obtain rows
    where "committed (fold (scrape_page w) [j + 1..?n] ?s2) = committed ?s2 @ rows"
    using committed_fold_grows by blast
  ultimately show ?thesis
    by (auto simp: run)
qed

section \<open>Facts about a session\<close>

lemma fetched_scrape_data:
  "\<not> connect_fails w \<Longrightarrow> \<not> create_fails w \<Longrightarrow>
   fetched (scrape_data w d csv_name user_pages max_limit) = [1..min user_pages max_limit]"
  by (simp add: scrape_data_def Let_def gets_scrape_pages split: prod.split)

lemma stored_after_scrape_data:
  "\<not> connect_fails w \<Longrightarrow> \<not> create_fails w \<Longrightarrow>
   stored (after (scrape_data w d csv_name user_pages max_limit))
     = committed (scrape_pages w (stored d) user_pages max_limit)"
  by (simp add: scrape_data_def Let_def split: prod.split)

lemma result_scrape_data:
  "\<not> connect_fails w \<Longrightarrow> \<not> create_fails w \<Longrightarrow> \<not> read_fails w \<Longrightarrow>
   result (scrape_data w d csv_name user_pages max_limit)
     = Inr (fst (export_csv (files d) csv_name (table_read w d user_pages max_limit)))"
  by (simp add: scrape_data_def Let_def split: prod.split)

lemma files_after_scrape_data:
  "\<not> connect_fails w \<Longrightarrow> \<not> create_fails w \<Longrightarrow> \<not> read_fails w \<Longrightarrow>
   files (after (scrape_data w d csv_name user_pages max_limit))
     = snd (export_csv (files d) csv_name (table_read w d user_pages max_limit))"
  by (simp add: scrape_data_def Let_def split: prod.split)

lemma files_after_unread:
  "connect_fails w \<or> create_fails w \<or> read_fails w \<Longrightarrow>
   files (after (scrape_data w d csv_name user_pages max_limit)) = files d"
  by (auto simp: scrape_data_def Let_def)

lemma set_fst_export_csv: "set (fst (export_csv fs csv_name df)) = set df"
  by (simp add: export_csv_def set_drop_duplicates)

text \<open>The definitions that run a session on a given world.\<close>

lemmas run_session = scrape_data_def table_read_def scrape_pages_def actual_pages_def
  scrape_page_def commit_def export_csv_def drop_duplicates_def extract_listing_def
  strip_def py_isspace_def Let_def upto_from_1

section \<open>The pages fetched\<close>

text \<open>
  C1. A session that has opened its store (the connection and the table's creation did not
  raise) issues exactly one GET per index from 1 to
  \<open>actual_pages = min user_pages max_limit\<close>, in that order and whatever fails later: the
  number of fetch attempts is \<open>min user_pages max_limit\<close>, for every requested count and
  every cap (none when the minimum is below 1).
\<close>

theorem pages_fetched:
  assumes "\<not> connect_fails w" and "\<not> create_fails w"
  shows "actual_pages user_pages max_limit = min user_pages max_limit
         \<and> fetched (scrape_data w d csv_name user_pages max_limit)
             = [1..actual_pages user_pages max_limit]
         \<and> length (fetched (scrape_data w d csv_name user_pages max_limit))
             = nat (min user_pages max_limit)"
  using assms by (simp add: fetched_scrape_data actual_pages_def)

text \<open>Cap 8 and request 120: the eight pages 1 to 8 are fetched.\<close>

theorem pages_fetched_witness:
  "\<not> connect_fails quiet \<and> \<not> create_fails quiet
   \<and> fetched (scrape_data quiet empty_disk ''children_shoes_clean_data.csv'' 120 8)
       = [1, 2, 3, 4, 5, 6, 7, 8]
   \<and> length (fetched (scrape_data quiet empty_disk ''children_shoes_clean_data.csv'' 120 8)) = 8"
  using pages_fetched [where w = quiet and d = empty_disk
      and csv_name = "''children_shoes_clean_data.csv''" and user_pages = 120 and max_limit = 8]
  by (simp add: quiet_def actual_pages_def upto_from_1)

section \<open>Containers that cannot be extracted\<close>

text \<open>
  C2, as the program has it. Extraction of a container yields no record exactly when one
  of the element lookups fails: no description element, no price element, no location
  element, no \<^verbatim>\<open>span\<close> inside the location element, or no image element. Such a container
  inserts no row, and the containers before and after it on the page are extracted and
  inserted as they are without it, each at its own position. A missing \<^verbatim>\<open>src\<close> attribute
  on an image element that was found is not among the failures.
\<close>

theorem failed_lookup_skips_container:
  "(extract_listing c = None
      \<longleftrightarrow> card_description c = None \<or> card_price c = None \<or> card_location c = None
          \<or> card_location c = Some None \<or> card_img c = None)
   \<and> (extract_listing c = None
      \<longrightarrow> insert_containers w index k [c] rows = rows
        \<and> insert_containers w index k (before @ c # rest) rows
            = insert_containers w index (Suc (k + length before)) rest
                (insert_containers w index k before rows))"
proof -
  have "extract_listing c = None
      \<longleftrightarrow> card_description c = None \<or> card_price c = None \<or> card_location c = None
          \<or> card_location c = Some None \<or> card_img c = None"
    by (auto simp: extract_listing_def split: option.splits)
  moreover have "insert_containers w index k [c] rows = rows
      \<and> insert_containers w index k (before @ c # rest) rows
          = insert_containers w index (Suc (k + length before)) rest
              (insert_containers w index k before rows)"
    if "extract_listing c = None"
    using that by (simp add: insert_containers_append)
  ultimately show ?thesis
    by blast
qed

text \<open>
  A page of three well-formed cards and one card without the price element, in second
  place: exactly the three records are inserted.
\<close>

theorem failed_lookup_skips_container_witness:
  "card_price no_price = None
   \<and> extract_listing no_price = None
   \<and> insert_containers quiet 1 0 ([shirt] @ no_price # [boots, shirt]) []
       = insert_containers quiet 1 2 [boots, shirt] (insert_containers quiet 1 0 [shirt] [])
   \<and> insert_containers quiet 1 0 [shirt, no_price, boots, shirt] []
       = [shirt_row, boots_row, shirt_row]"
  using failed_lookup_skips_container [where c = no_price and w = quiet and index = 1
      and k = 0 and before = "[shirt]" and rest = "[boots, shirt]" and rows = "[]"]
  by (simp add: no_price_def shirt_def boots_def shirt_row_def boots_row_def quiet_def
      extract_listing_def strip_def py_isspace_def)

text \<open>
  C2 as stated fails for the fourth lookup: a card whose image element has no \<^verbatim>\<open>src\<close>
  attribute is extracted, and its row is inserted and committed with a null image link.
\<close>

theorem image_without_src_is_stored:
  "card_img no_src = Some None
   \<and> result (scrape_data (site (Some [no_src]) (Some [])) empty_disk
        ''mens_clothes_clean_data.csv'' 1 119) = Inr [shirt_row\<lparr>image_link := None\<rparr>]
   \<and> stored (after (scrape_data (site (Some [no_src]) (Some [])) empty_disk
        ''mens_clothes_clean_data.csv'' 1 119)) = [shirt_row\<lparr>image_link := None\<rparr>]"
  by (simp add: no_src_def site_def shirt_def shirt_row_def quiet_def empty_disk_def
      run_session)

section \<open>Pages that cannot be fetched\<close>

text \<open>
  C3. In a session that has opened its store, let the fetch of page \<open>k\<close> fail, for a
  \<open>k\<close> from 1 to \<open>actual_pages\<close>. Then page \<open>k\<close> changes nothing but the list of GETs
  issued (no row is inserted, nothing is committed); every page is still fetched, those
  after \<open>k\<close> included; the rows of every later page that is fetched, and whose inserts and
  commit succeed, are in the table when the session ends; and when the final read
  succeeds the session returns a data frame, which holds every committed row.
\<close>

theorem failed_fetch_does_not_abort:
  assumes "\<not> connect_fails w" and "\<not> create_fails w"
    and "fetch w k = None" and "1 \<le> k" and "k \<le> actual_pages user_pages max_limit"
  shows "scrape_page w k s = s\<lparr>gets := gets s @ [k]\<rparr>
    \<and> fetched (scrape_data w d csv_name user_pages max_limit)
        = [1..actual_pages user_pages max_limit]
    \<and> (\<forall>j. k < j \<and> j \<le> actual_pages user_pages max_limit
          \<longrightarrow> j \<in> set (fetched (scrape_data w d csv_name user_pages max_limit)))
    \<and> (\<forall>j cs. k < j \<and> j \<le> actual_pages user_pages max_limit \<and> fetch w j = Some cs
            \<and> (\<forall>i<length cs. insert_result w j i = None) \<and> commit_result w j = None
          \<longrightarrow> set (List.map_filter extract_listing cs)
                \<subseteq> set (stored (after (scrape_data w d csv_name user_pages max_limit))))
    \<and> (\<not> read_fails w
          \<longrightarrow> (\<exists>df. result (scrape_data w d csv_name user_pages max_limit) = Inr df
                \<and> set (stored (after (scrape_data w d csv_name user_pages max_limit)))
                    \<subseteq> set df))"
proof -
  let ?out = "scrape_data w d csv_name user_pages max_limit"
  have fetched: "fetched ?out = [1..actual_pages user_pages max_limit]"
    using assms(1,2) by (simp add: fetched_scrape_data actual_pages_def)
  have later: "j \<in> set (fetched ?out)" if "k < j" "j \<le> actual_pages user_pages max_limit" for j
    using that assms(4) by (simp add: fetched)
  have rows: "set (List.map_filter extract_listing cs) \<subseteq> set (stored (after ?out))"
    if "k < j" "j \<le> actual_pages user_pages max_limit" "fetch w j = Some cs"
      "\<forall>i<length cs. insert_result w j i = None" "commit_result w j = None" for j cs
  proof -
    from that(1) assms(4) have "1 \<le> j" by simp
    then show ?thesis
      using that assms(1,2) by (simp add: stored_after_scrape_data page_rows_committed)
  qed
  have df: "\<exists>df. result ?out = Inr df \<and> set (stored (after ?out)) \<subseteq> set df"
    if "\<not> read_fails w"
    using that assms(1,2)
    by (auto simp: result_scrape_data stored_after_scrape_data set_fst_export_csv
        table_read_def Let_def)
  show ?thesis
    using assms(3) fetched later rows df by (simp add: scrape_page_failed_fetch) blast
qed

text \<open>Page 1 cannot be fetched; page 2 is fetched all the same and its row is committed.\<close>

theorem failed_fetch_does_not_abort_witness:
  "\<not> connect_fails (site None (Some [shirt])) \<and> \<not> create_fails (site None (Some [shirt]))
   \<and> fetch (site None (Some [shirt])) 1 = None \<and> (1::int) \<le> 1 \<and> 1 \<le> actual_pages 2 119
   \<and> fetched (scrape_data (site None (Some [shirt])) empty_disk
        ''mens_shoes_clean_data.csv'' 2 119) = [1, 2]
   \<and> stored (after (scrape_data (site None (Some [shirt])) empty_disk
        ''mens_shoes_clean_data.csv'' 2 119)) = [shirt_row]
   \<and> result (scrape_data (site None (Some [shirt])) empty_disk
        ''mens_shoes_clean_data.csv'' 2 119) = Inr [shirt_row]"
  using failed_fetch_does_not_abort [where w = "site None (Some [shirt])" and k = 1
      and user_pages = 2 and max_limit = 119 and d = empty_disk
      and csv_name = "''mens_shoes_clean_data.csv''"]
  by (simp add: site_def quiet_def empty_disk_def shirt_def shirt_row_def run_session)

section \<open>The export\<close>

text \<open>
  C4, as the program has it. When the session ends with a successful read of a table
  that has a row, the rows that repeat an earlier row in all four fields are dropped,
  the first occurrences staying in their order; the result is written to the category's
  file and returned. (A table without rows is returned as it is and nothing is written.)
\<close>

theorem export_of_nonempty_table:
  assumes "\<not> connect_fails w" and "\<not> create_fails w" and "\<not> read_fails w"
    and "table_read w d user_pages max_limit \<noteq> []"
  shows "result (scrape_data w d csv_name user_pages max_limit)
           = Inr (drop_duplicates (table_read w d user_pages max_limit))
    \<and> files (after (scrape_data w d csv_name user_pages max_limit))
        = (files d)(csv_name \<mapsto> drop_duplicates (table_read w d user_pages max_limit))
    \<and> drop_duplicates (table_read w d user_pages max_limit)
        = first_occurrences (table_read w d user_pages max_limit)
    \<and> distinct (drop_duplicates (table_read w d user_pages max_limit))
    \<and> set (drop_duplicates (table_read w d user_pages max_limit))
        = set (table_read w d user_pages max_limit)"
  using assms
  by (simp add: result_scrape_data files_after_scrape_data export_csv_def
      distinct_drop_duplicates set_drop_duplicates drop_duplicates_first_occurrences [symmetric])

text \<open>
  The same card on two pages, so inserted under two commits: the table read has two equal
  rows, the file and the data frame returned have one.
\<close>

theorem export_of_nonempty_table_witness:
  "\<not> connect_fails (site (Some [shirt]) (Some [shirt]))
   \<and> \<not> create_fails (site (Some [shirt]) (Some [shirt]))
   \<and> \<not> read_fails (site (Some [shirt]) (Some [shirt]))
   \<and> table_read (site (Some [shirt]) (Some [shirt])) empty_disk 2 119 = [shirt_row, shirt_row]
   \<and> result (scrape_data (site (Some [shirt]) (Some [shirt])) empty_disk
        ''mens_clothes_clean_data.csv'' 2 119) = Inr [shirt_row]
   \<and> files (after (scrape_data (site (Some [shirt]) (Some [shirt])) empty_disk
        ''mens_clothes_clean_data.csv'' 2 119)) ''mens_clothes_clean_data.csv''
       = Some [shirt_row]
   \<and> length (drop_duplicates (table_read (site (Some [shirt]) (Some [shirt])) empty_disk 2 119))
       = 1"
  using export_of_nonempty_table [where w = "site (Some [shirt]) (Some [shirt])"
      and d = empty_disk and user_pages = 2 and max_limit = 119
      and csv_name = "''mens_clothes_clean_data.csv''"]
  by (simp add: site_def quiet_def empty_disk_def shirt_def shirt_row_def run_session)

text \<open>
  C4 as stated fails on an empty table: the de-duplicated result, which has no row, is
  not written, and the file of an earlier session keeps its row.
\<close>

theorem empty_table_is_not_exported:
  "table_read quiet stale_disk 1 8 = []
   \<and> result (scrape_data quiet stale_disk ''children_shoes_clean_data.csv'' 1 8) = Inr []
   \<and> files (after (scrape_data quiet stale_disk ''children_shoes_clean_data.csv'' 1 8))
        ''children_shoes_clean_data.csv'' = Some [boots_row]
   \<and> Some [boots_row] \<noteq> Some (drop_duplicates (table_read quiet stale_disk 1 8))"
  by (simp add: quiet_def stale_disk_def boots_row_def run_session)

section \<open>Failures of the store\<close>

text \<open>
  C5, as the program has it. In a session that has connected, an error of the table's
  creation is not handled: it leaves \<^verbatim>\<open>scrape_data\<close> before any page is fetched, and the
  disk is as it was. An error of a row's \<^verbatim>\<open>INSERT\<close> is handled where it occurs: the row is
  not added (after a rollback the open transaction is empty), the loop goes on with the
  next container, every page is still fetched, and the session ends as the final read
  decides, with the data frame when the read succeeds.
\<close>

theorem schema_error_propagates:
  assumes "\<not> connect_fails w"
  shows "(create_fails w
           \<longrightarrow> result (scrape_data w d csv_name user_pages max_limit) = Inl Schema_error
             \<and> fetched (scrape_data w d csv_name user_pages max_limit) = []
             \<and> after (scrape_data w d csv_name user_pages max_limit) = d)
    \<and> (\<not> create_fails w
           \<longrightarrow> fetched (scrape_data w d csv_name user_pages max_limit)
                 = [1..actual_pages user_pages max_limit]
             \<and> result (scrape_data w d csv_name user_pages max_limit)
                 = (if read_fails w then Inl Read_error
                    else Inr (fst (export_csv (files d) csv_name
                                     (table_read w d user_pages max_limit)))))
    \<and> (extract_listing c = Some r \<and> insert_result w index k = Some f
           \<longrightarrow> insert_containers w index k (c # cs) rows
                 = insert_containers w index (Suc k) cs
                     (case f of Keeps_transaction \<Rightarrow> rows | Rolls_back \<Rightarrow> []))"
proof -
  let ?out = "scrape_data w d csv_name user_pages max_limit"
  have schema: "result ?out = Inl Schema_error \<and> fetched ?out = [] \<and> after ?out = d"
    if "create_fails w"
    using that assms by (simp add: scrape_data_def)
  have unread: "result ?out = Inl Read_error" if "\<not> create_fails w" "read_fails w"
    using that assms by (simp add: scrape_data_def Let_def)
  have loop: "fetched ?out = [1..actual_pages user_pages max_limit]" if "\<not> create_fails w"
    using that assms by (simp add: fetched_scrape_data actual_pages_def)
  have returned: "result ?out
      = Inr (fst (export_csv (files d) csv_name (table_read w d user_pages max_limit)))"
    if "\<not> create_fails w" "\<not> read_fails w"
    using that assms by (simp add: result_scrape_data)
  have passed_over: "insert_containers w index k (c # cs) rows
      = insert_containers w index (Suc k) cs
          (case f of Keeps_transaction \<Rightarrow> rows | Rolls_back \<Rightarrow> [])"
    if "extract_listing c = Some r" "insert_result w index k = Some f"
    using that by (simp split: failure.split)
  show ?thesis
    using schema unread loop returned passed_over by simp
qed

text \<open>The table cannot be created: the error leaves the session, no page is fetched.\<close>

theorem schema_error_propagates_witness:
  "\<not> connect_fails (quiet\<lparr>create_fails := True\<rparr>)
   \<and> result (scrape_data (quiet\<lparr>create_fails := True\<rparr>) stale_disk
        ''children_shoes_clean_data.csv'' 5 8) = Inl Schema_error
   \<and> fetched (scrape_data (quiet\<lparr>create_fails := True\<rparr>) stale_disk
        ''children_shoes_clean_data.csv'' 5 8) = []
   \<and> after (scrape_data (quiet\<lparr>create_fails := True\<rparr>) stale_disk
        ''children_shoes_clean_data.csv'' 5 8) = stale_disk"
  using schema_error_propagates [where w = "quiet\<lparr>create_fails := True\<rparr>" and d = stale_disk
      and csv_name = "''children_shoes_clean_data.csv''" and user_pages = 5 and max_limit = 8]
  by (simp add: quiet_def)

text \<open>
  C5 as stated fails for the insert: the \<^verbatim>\<open>INSERT\<close> of the one card of page 1 raises, and
  the session fetches page 2, stores its card, closes the connection and returns.
\<close>

theorem insert_error_is_passed_over:
  "extract_listing shirt = Some shirt_row
   \<and> insert_result first_insert_down 1 0 = Some Keeps_transaction
   \<and> result (scrape_data first_insert_down empty_disk ''mens_clothes_clean_data.csv'' 2 119)
       = Inr [boots_row]
   \<and> fetched (scrape_data first_insert_down empty_disk ''mens_clothes_clean_data.csv'' 2 119)
       = [1, 2]
   \<and> conn (scrape_data first_insert_down empty_disk ''mens_clothes_clean_data.csv'' 2 119)
       = Closed"
  by (simp add: first_insert_down_def site_def quiet_def empty_disk_def shirt_def boots_def
      shirt_row_def boots_row_def run_session)

section \<open>The stored price\<close>

text \<open>
  C6, as the program has it. The price stored for an extracted container is the text of
  its price element with the occurrences of \<^verbatim>\<open>CFA\<close> removed, found from left to right,
  and then every space character (code point 32) removed. It holds no space; other
  whitespace of the text stays. It is a text: nothing is converted to a number.
\<close>

theorem stored_price:
  assumes "extract_listing c = Some r"
  shows "\<exists>p. card_price c = Some p
           \<and> price r = filter (\<lambda>ch. ch \<noteq> CHR '' '') (replace_by_empty ''CFA'' p)
           \<and> CHR '' '' \<notin> set (price r)"
  using assms
  by (auto simp: extract_listing_def replace_by_empty_single split: option.splits)

theorem stored_price_witness:
  "extract_listing shirt = Some shirt_row \<and> card_price shirt = Some ''12 500 CFA''
   \<and> price shirt_row = ''12500''"
  using stored_price [where c = shirt and r = shirt_row]
  by (simp add: shirt_def shirt_row_def extract_listing_def strip_def py_isspace_def)

text \<open>
  C6 as stated fails for whitespace other than the space: a price element whose text is
  wrapped in newlines is stored with the newlines.
\<close>

theorem price_keeps_other_whitespace:
  "card_price wrapped_price = Some (CHR 0x0A # ''12 500 CFA'' @ [CHR 0x0A])
   \<and> map_option price (extract_listing wrapped_price)
       = Some (CHR 0x0A # ''12500'' @ [CHR 0x0A])
   \<and> py_isspace (CHR 0x0A)"
  by (simp add: wrapped_price_def shirt_def extract_listing_def py_isspace_def)

section \<open>Exporting twice\<close>

text \<open>
  C7. The export is idempotent: exporting the data frame that an export returned, over
  the files that export left, returns the same data frame and leaves the same files; and
  so is the de-duplication itself.
\<close>

theorem export_idempotent:
  "export_csv (snd (export_csv fs csv_name df)) csv_name (fst (export_csv fs csv_name df))
     = export_csv fs csv_name df
   \<and> drop_duplicates (drop_duplicates df) = drop_duplicates df"
  by (simp add: export_csv_def drop_duplicates_idem drop_duplicates_Nil_iff)

section \<open>The connection\<close>

text \<open>
  C8, as the program has it. A session that has connected ends with its connection
  closed on every path on which the table's creation and the final read succeed, whatever
  fetches, inserts and commits fail; when the table's creation or the final read raises,
  the exception leaves \<^verbatim>\<open>scrape_data\<close> and the connection is still open.
\<close>

theorem connection_closed_after_read:
  assumes "\<not> connect_fails w"
  shows "conn (scrape_data w d csv_name user_pages max_limit)
           = (if create_fails w \<or> read_fails w then Left_open else Closed)"
  using assms by (simp add: scrape_data_def Let_def split: prod.split)

text \<open>A failed fetch, a failed insert and a failed commit: the connection is closed.\<close>

theorem connection_closed_after_read_witness:
  "\<not> connect_fails rough \<and> fetch rough 1 = None
   \<and> insert_result rough 2 0 = Some Rolls_back \<and> commit_result rough 2 = Some Keeps_transaction
   \<and> conn (scrape_data rough empty_disk ''mens_shoes_clean_data.csv'' 2 119) = Closed"
  using connection_closed_after_read [where w = rough and d = empty_disk
      and csv_name = "''mens_shoes_clean_data.csv''" and user_pages = 2 and max_limit = 119]
  by (simp add: rough_def site_def quiet_def)

text \<open>
  C8 as stated fails when the final read fails: the session ends with the read's error
  and an open connection.
\<close>

theorem failed_read_leaves_connection_open:
  "\<not> connect_fails (quiet\<lparr>read_fails := True\<rparr>) \<and> \<not> create_fails (quiet\<lparr>read_fails := True\<rparr>)
   \<and> result (scrape_data (quiet\<lparr>read_fails := True\<rparr>) empty_disk
        ''mens_shoes_clean_data.csv'' 1 119) = Inl Read_error
   \<and> conn (scrape_data (quiet\<lparr>read_fails := True\<rparr>) empty_disk
        ''mens_shoes_clean_data.csv'' 1 119) = Left_open"
  by (simp add: quiet_def empty_disk_def run_session)

section \<open>The dashboard's aggregates\<close>









text \<open>
  A price held as a \<^verbatim>\<open>float64\<close> is rendered with its decimal point, whose digit the
  reader keeps: 12500.0 is read as 125000. A price of 17 digits is beyond the exact range.
\<close>

lemma float_price_is_read_tenfold:
  "clean_price (Float ''12500.0'') = Exact 125000
   \<and> clean_price (Whole 12500) = Exact 12500
   \<and> clean_price Missing = NaN
   \<and> plot_category_stats_lite float_prices
       = Shown \<lparr>total_items = 2, avg_price = Some 125000, max_price = Some 125000,
                top_locations = None, top_items = [Float ''12500.0''],
                price_distribution = Some [125000]\<rparr>"
  by (simp add: float_prices_def plot_category_stats_lite_def price_col_def address_col_def
      item_col_def assign_clean_price_def dropna_clean_price_def clean_price_def
      to_numeric_def strip_non_digits_def is_digit_def astype_str_def float64_exact_def
      column_def counted_def lower_def lower_char_def strip_def py_isspace_def
      possible_addr_def possible_names_def Let_def)

lemma long_price_is_beyond_float64:
  "clean_price (Text ''90071992547409930 CFA'') = Inexact
   \<and> plot_category_stats_lite long_price = Beyond_float64"
  by (simp add: long_price_def plot_category_stats_lite_def price_col_def
      clean_price_def to_numeric_def strip_non_digits_def is_digit_def astype_str_def
      float64_exact_def column_def lower_def lower_char_def Let_def)

text \<open>
  When the first column is \<^verbatim>\<open>clean_price\<close> itself and no column has an item name, the
  item chart counts the column the reader has just overwritten, so it loses the rows
  whose price is not a number.
\<close>

lemma top_items_of_clean_price_column:
  "item_col recleaned = ''clean_price''
   \<and> clean_price (Text ''sur demande'') = NaN
   \<and> plot_category_stats_lite recleaned
       = Shown \<lparr>total_items = 2, avg_price = Some 12500, max_price = Some 12500,
                top_locations = None, top_items = [Whole 12500],
                price_distribution = Some [12500]\<rparr>"
  by (simp add: recleaned_def plot_category_stats_lite_def price_col_def address_col_def
      item_col_def assign_clean_price_def dropna_clean_price_def clean_price_def
      to_numeric_def strip_non_digits_def is_digit_def astype_str_def float64_exact_def
      column_def counted_def lower_def lower_char_def strip_def py_isspace_def
      possible_addr_def possible_names_def Let_def)




section \<open>An empty table\<close>

text \<open>
  C10. When the table read at the session's end has no row, \<^verbatim>\<open>scrape_data\<close> returns
  the empty table and every file is as it was before the session, the export file of an
  earlier session included. Whenever a session changes the files, the table read had a
  row, and the only change is the export file, which holds the de-duplicated table.
\<close>

theorem empty_table_writes_no_file:
  "(\<not> connect_fails w \<and> \<not> create_fails w \<and> \<not> read_fails w
      \<and> table_read w d user_pages max_limit = []
    \<longrightarrow> result (scrape_data w d csv_name user_pages max_limit) = Inr []
        \<and> files (after (scrape_data w d csv_name user_pages max_limit)) = files d)
   \<and> (files (after (scrape_data w d csv_name user_pages max_limit)) \<noteq> files d
    \<longrightarrow> table_read w d user_pages max_limit \<noteq> []
        \<and> files (after (scrape_data w d csv_name user_pages max_limit))
            = (files d)(csv_name \<mapsto> drop_duplicates (table_read w d user_pages max_limit)))"
proof (cases "connect_fails w \<or> create_fails w \<or> read_fails w")
  case True
  then show ?thesis
    using files_after_unread [of w d csv_name user_pages max_limit] by auto
next
  case False
  then show ?thesis
    by (simp add: result_scrape_data files_after_scrape_data export_csv_def)
qed

text \<open>Three empty pages beside the export file of an earlier session.\<close>

theorem empty_table_writes_no_file_witness:
  "\<not> connect_fails quiet \<and> \<not> create_fails quiet \<and> \<not> read_fails quiet
   \<and> table_read quiet stale_disk 3 8 = []
   \<and> result (scrape_data quiet stale_disk ''children_shoes_clean_data.csv'' 3 8) = Inr []
   \<and> files (after (scrape_data quiet stale_disk ''children_shoes_clean_data.csv'' 3 8))
       = files stale_disk
   \<and> files stale_disk ''children_shoes_clean_data.csv'' = Some [boots_row]"
  using empty_table_writes_no_file [where w = quiet and d = stale_disk and user_pages = 3
      and max_limit = 8 and csv_name = "''children_shoes_clean_data.csv''"]
  by (simp add: quiet_def stale_disk_def boots_row_def run_session)

end
